theory Spec2Isabelle
  imports Main "HOL-Library.AList" "HOL-Library.Sublist"
begin

section \<open>The path-expression engine of src/index.ts\<close>

text \<open>
  The development embeds \<^verbatim>\<open>LGet\<close>, \<^verbatim>\<open>LSet\<close>, \<^verbatim>\<open>evaluatePath\<close>,
  \<^verbatim>\<open>setValueAtPath\<close>, \<^verbatim>\<open>tokenizePath\<close>, \<^verbatim>\<open>parseArguments\<close> and
  \<^verbatim>\<open>parseValue\<close> of \<^verbatim>\<open>src/index.ts\<close> (lines 61 to 375).

  Scope of the model of the JavaScript runtime underneath them:
  \<^item> strings are lists of 8-bit characters, and white space is the ASCII white space;
  \<^item> a number is kept as its exact decimal value \<open>m * 10 ^ e\<close> (or NaN, an infinity,
    negative zero); rounding to binary64 and overflow are not modelled;
  \<^item> \<^verbatim>\<open>JSON.parse\<close> is a parameter \<open>J\<close> (\<open>None\<close> when it throws), and the
    functions stored in the value graph are a parameter \<open>F\<close>, a table from function
    identifiers to their behaviour on a heap;
  \<^item> objects live in a heap (a list, addresses are positions), carry their own
    properties in creation order, and have no getters, setters, proxies, frozen
    properties or inherited members; the module is strict-mode code, so assigning a
    property of a primitive throws.
\<close>

subsection \<open>Numbers and their text\<close>

datatype jsnum = NaN | PosInf | NegInf | NegZero | Dec int int

definition is_ws :: "char \<Rightarrow> bool" where
  "is_ws c = (c \<in> set [CHR 0x09, CHR 0x0A, CHR 0x0B, CHR 0x0C, CHR 0x0D, CHR '' ''])"

text \<open>\<^verbatim>\<open>String.prototype.trim\<close>.\<close>

definition trim :: "string \<Rightarrow> string" where
  "trim s = rev (dropWhile is_ws (rev (dropWhile is_ws s)))"

definition digit_val :: "char \<Rightarrow> nat option" where
  "digit_val c = (let n = (of_char c :: nat) in
     if 48 \<le> n \<and> n \<le> 57 then Some (n - 48) else None)"

definition hex_val :: "char \<Rightarrow> nat option" where
  "hex_val c = (let n = (of_char c :: nat) in
     if 48 \<le> n \<and> n \<le> 57 then Some (n - 48)
     else if 97 \<le> n \<and> n \<le> 102 then Some (n - 87)
     else if 65 \<le> n \<and> n \<le> 70 then Some (n - 55)
     else None)"

definition is_digit :: "char \<Rightarrow> bool" where
  "is_digit c = (digit_val c \<noteq> None)"

text \<open>The value of a digit string in a radix; \<open>None\<close> when a character is no digit of it.\<close>

fun radix_num :: "nat \<Rightarrow> nat \<Rightarrow> string \<Rightarrow> nat option" where
  "radix_num r acc [] = Some acc"
| "radix_num r acc (c # cs) =
     (case hex_val c of
        None \<Rightarrow> None
      | Some d \<Rightarrow> if d < r then radix_num r (acc * r + d) cs else None)"

definition nat_of_digits :: "string \<Rightarrow> nat" where
  "nat_of_digits ds = (case radix_num 10 0 ds of Some n \<Rightarrow> n | None \<Rightarrow> 0)"

text \<open>The normal form of \<open>m * 10 ^ e\<close>: no trailing zero in the mantissa.\<close>

function normd :: "nat \<Rightarrow> int \<Rightarrow> nat \<times> int" where
  "normd m e = (if m \<noteq> 0 \<and> m mod 10 = 0 then normd (m div 10) (e + 1) else (m, e))"
  by pat_completeness auto
termination
  by (relation "measure fst") auto

declare normd.simps [simp del]

definition mk_dec :: "bool \<Rightarrow> nat \<Rightarrow> int \<Rightarrow> jsnum" where
  "mk_dec neg m e =
     (if m = 0 then (if neg then NegZero else Dec 0 0)
      else (case normd m e of (m', e') \<Rightarrow> Dec (if neg then - int m' else int m') e'))"

text \<open>The \<^verbatim>\<open>ExponentPart\<close> of a numeric string, or nothing at all.\<close>

definition exponent_part :: "string \<Rightarrow> int option" where
  "exponent_part s =
     (case s of
        [] \<Rightarrow> Some 0
      | c # r \<Rightarrow>
          if c = CHR ''e'' \<or> c = CHR ''E'' then
            (let (neg, ds) = (case r of
                                [] \<Rightarrow> (False, r)
                              | x # r' \<Rightarrow> if x = CHR ''-'' then (True, r')
                                          else if x = CHR ''+'' then (False, r')
                                          else (False, r))
             in if ds \<noteq> [] \<and> list_all is_digit ds
                then Some (if neg then - int (nat_of_digits ds) else int (nat_of_digits ds))
                else None)
          else None)"

text \<open>\<^verbatim>\<open>StrDecimalLiteral\<close>: sign, \<^verbatim>\<open>Infinity\<close> or digits with a fraction and an exponent.\<close>

definition str_decimal :: "string \<Rightarrow> jsnum" where
  "str_decimal s =
     (let (neg, u) = (case s of
                        [] \<Rightarrow> (False, s)
                      | c # r \<Rightarrow> if c = CHR ''-'' then (True, r)
                                 else if c = CHR ''+'' then (False, r)
                                 else (False, s))
      in if u = ''Infinity'' then (if neg then NegInf else PosInf)
         else
           (let ip = takeWhile is_digit u;
                r1 = dropWhile is_digit u;
                (fp, r2) = (case r1 of
                              [] \<Rightarrow> ([], r1)
                            | c # r \<Rightarrow> if c = CHR ''.''
                                       then (takeWhile is_digit r, dropWhile is_digit r)
                                       else ([], r1))
            in if ip = [] \<and> fp = [] then NaN
               else (case exponent_part r2 of
                       None \<Rightarrow> NaN
                     | Some ex \<Rightarrow> mk_dec neg (nat_of_digits (ip @ fp)) (ex - int (length fp)))))"

text \<open>\<^verbatim>\<open>NonDecimalIntegerLiteral\<close>: \<^verbatim>\<open>0x\<close>, \<^verbatim>\<open>0o\<close>, \<^verbatim>\<open>0b\<close> and at least one digit.\<close>

definition str_nondecimal :: "string \<Rightarrow> nat option" where
  "str_nondecimal s =
     (case s of
        z # p # ds \<Rightarrow>
          if z = CHR ''0'' \<and> ds \<noteq> [] then
            (if p = CHR ''x'' \<or> p = CHR ''X'' then radix_num 16 0 ds
             else if p = CHR ''o'' \<or> p = CHR ''O'' then radix_num 8 0 ds
             else if p = CHR ''b'' \<or> p = CHR ''B'' then radix_num 2 0 ds
             else None)
          else None
      | _ \<Rightarrow> None)"

text \<open>\<^verbatim>\<open>Number(s)\<close> on a string, and \<^verbatim>\<open>isNaN\<close> on a number.\<close>

definition js_Number :: "string \<Rightarrow> jsnum" where
  "js_Number s =
     (let t = trim s in
      if t = [] then Dec 0 0
      else (case str_nondecimal t of
              Some n \<Rightarrow> mk_dec False n 0
            | None \<Rightarrow> str_decimal t))"

definition js_isNaN :: "jsnum \<Rightarrow> bool" where
  "js_isNaN n = (n = NaN)"

fun digits_of :: "nat \<Rightarrow> string" where
  "digits_of n =
     (if n < 10 then [''0123456789'' ! n]
      else digits_of (n div 10) @ [''0123456789'' ! (n mod 10)])"

declare digits_of.simps [simp del]

text \<open>
  \<^verbatim>\<open>Number::toString\<close>, the text under which a number names a property: with \<open>k\<close>
  digits and the decimal point after \<open>n\<close> of them.
\<close>

definition unsigned_to_string :: "nat \<Rightarrow> int \<Rightarrow> string" where
  "unsigned_to_string m e =
     (let ds = digits_of m; k = int (length ds); n = k + e in
      if k \<le> n \<and> n \<le> 21 then ds @ replicate (nat (n - k)) CHR ''0''
      else if 0 < n \<and> n \<le> 21 then take (nat n) ds @ ''.'' @ drop (nat n) ds
      else if - 6 < n \<and> n \<le> 0 then ''0.'' @ replicate (nat (- n)) CHR ''0'' @ ds
      else (let x = n - 1;
                ex = (if x < 0 then ''-'' else ''+'') @ digits_of (nat \<bar>x\<bar>)
            in if k = 1 then ds @ ''e'' @ ex
               else take 1 ds @ ''.'' @ drop 1 ds @ ''e'' @ ex))"

definition num_to_string :: "jsnum \<Rightarrow> string" where
  "num_to_string x =
     (case x of
        NaN \<Rightarrow> ''NaN''
      | PosInf \<Rightarrow> ''Infinity''
      | NegInf \<Rightarrow> ''-Infinity''
      | NegZero \<Rightarrow> ''0''
      | Dec m e \<Rightarrow>
          if m = 0 then ''0''
          else if m < 0 then ''-'' @ unsigned_to_string (nat (- m)) e
          else unsigned_to_string (nat m) e)"

subsection \<open>Literal values and the Value Literal Parser\<close>

text \<open>What \<^verbatim>\<open>parseValue\<close> returns, and what a function call of a path is given.\<close>

datatype literal =
    LStr string
  | LNum jsnum
  | LBool bool
  | LNull
  | LUndefined
  | LArr "literal list"
  | LObj "(string \<times> literal) list"

type_synonym json_parse = "string \<Rightarrow> literal option"

definition startsWith :: "string \<Rightarrow> char \<Rightarrow> bool" where
  "startsWith s c = (case s of [] \<Rightarrow> False | x # _ \<Rightarrow> x = c)"

definition endsWith :: "string \<Rightarrow> char \<Rightarrow> bool" where
  "endsWith s c = (s \<noteq> [] \<and> last s = c)"

text \<open>\<^verbatim>\<open>s.slice(1, -1)\<close>.\<close>

definition slice_inner :: "string \<Rightarrow> string" where
  "slice_inner s = butlast (tl s)"

text \<open>\<^verbatim>\<open>parseValue\<close>, lines 330 to 375; \<open>J\<close> is \<^verbatim>\<open>JSON.parse\<close>.\<close>

definition parseValue :: "json_parse \<Rightarrow> string \<Rightarrow> literal" where
  "parseValue J valueStr =
     (let trimmed = trim valueStr in
      if trimmed = [] then LStr []
      else if (startsWith trimmed CHR 0x22 \<and> endsWith trimmed CHR 0x22)
            \<or> (startsWith trimmed CHR 0x27 \<and> endsWith trimmed CHR 0x27)
        then LStr (slice_inner trimmed)
      else if startsWith trimmed CHR ''['' \<and> endsWith trimmed CHR '']''
        then (case J trimmed of Some v \<Rightarrow> v | None \<Rightarrow> LStr trimmed)
      else if startsWith trimmed CHR ''{'' \<and> endsWith trimmed CHR ''}''
        then (case J trimmed of Some v \<Rightarrow> v | None \<Rightarrow> LStr trimmed)
      else if \<not> js_isNaN (js_Number trimmed) then LNum (js_Number trimmed)
      else if trimmed = ''true'' then LBool True
      else if trimmed = ''false'' then LBool False
      else if trimmed = ''null'' then LNull
      else if trimmed = ''undefined'' then LUndefined
      else LStr trimmed)"

subsection \<open>The Argument List Parser\<close>

text \<open>The variables of the loop of \<^verbatim>\<open>parseArguments\<close>, lines 278 to 283.\<close>

record arg_state =
  args :: "literal list"
  current :: string
  inString :: bool
  stringChar :: string
  parenCount :: int
  bracketCount :: int

text \<open>
  One iteration of the loop, lines 286 to 317, at the character \<open>c\<close>; \<open>prev\<close> is
  \<^verbatim>\<open>argsStr[i - 1]\<close>, absent at the first character.
\<close>

definition arg_step :: "json_parse \<Rightarrow> char option \<Rightarrow> char \<Rightarrow> arg_state \<Rightarrow> arg_state" where
  "arg_step J prev c st =
     (if \<not> inString st then
        (if c = CHR 0x22 \<or> c = CHR 0x27 then
           st\<lparr>inString := True, stringChar := [c], current := current st @ [c]\<rparr>
         else if c = CHR ''('' then
           st\<lparr>parenCount := parenCount st + 1, current := current st @ [c]\<rparr>
         else if c = CHR '')'' then
           st\<lparr>parenCount := parenCount st - 1, current := current st @ [c]\<rparr>
         else if c = CHR ''['' then
           st\<lparr>bracketCount := bracketCount st + 1, current := current st @ [c]\<rparr>
         else if c = CHR '']'' then
           st\<lparr>bracketCount := bracketCount st - 1, current := current st @ [c]\<rparr>
         else if c = CHR '','' \<and> parenCount st = 0 \<and> bracketCount st = 0 then
           st\<lparr>args := args st @ [parseValue J (trim (current st))], current := []\<rparr>
         else st\<lparr>current := current st @ [c]\<rparr>)
      else
        (let st1 = st\<lparr>current := current st @ [c]\<rparr> in
         if [c] = stringChar st \<and> prev \<noteq> Some CHR 0x5C
         then st1\<lparr>inString := False, stringChar := []\<rparr>
         else st1))"

fun arg_loop :: "json_parse \<Rightarrow> char option \<Rightarrow> string \<Rightarrow> arg_state \<Rightarrow> arg_state" where
  "arg_loop J prev [] st = st"
| "arg_loop J prev (c # cs) st = arg_loop J (Some c) cs (arg_step J prev c st)"

definition arg_init :: arg_state where
  "arg_init = \<lparr>args = [], current = [], inString = False, stringChar = [],
               parenCount = 0, bracketCount = 0\<rparr>"

text \<open>\<^verbatim>\<open>parseArguments\<close>, lines 273 to 325.\<close>

definition parseArguments :: "json_parse \<Rightarrow> string \<Rightarrow> literal list" where
  "parseArguments J argsStr =
     (if trim argsStr = [] then []
      else (let st = arg_loop J None argsStr arg_init in
            if trim (current st) \<noteq> []
            then args st @ [parseValue J (trim (current st))]
            else args st))"

subsection \<open>Tokens and the Tokenizer\<close>

text \<open>The value of an index token: \<^verbatim>\<open>number | string\<close>.\<close>

datatype index_key = KNum jsnum | KStr string

datatype PathToken =
    Property string
  | Index index_key
  | FunctionCall string "literal list"

text \<open>
  The inner loops of lines 220 to 227 and 243 to 250: from a count of open delimiters,
  collect the content up to the matching closer; the result is the content and the text
  after the closer (position \<open>j\<close>), nothing when the text ends first.
\<close>

fun scan_close :: "char \<Rightarrow> char \<Rightarrow> nat \<Rightarrow> string \<Rightarrow> string \<Rightarrow> string \<times> string" where
  "scan_close opn cls cnt content [] = (content, [])"
| "scan_close opn cls cnt content (c # cs) =
     (if cnt > 0 then
        (let cnt1 = (if c = opn then cnt + 1 else cnt);
             cnt2 = (if c = cls then cnt1 - 1 else cnt1);
             content' = (if cnt2 > 0 then content @ [c] else content)
         in scan_close opn cls cnt2 content' cs)
      else (content, c # cs))"

lemma scan_close_length:
  "length (snd (scan_close opn cls cnt content s)) \<le> length s"
  by (induction opn cls cnt content s rule: scan_close.induct) (auto simp: Let_def le_SucI)

text \<open>Line 230: the key of an index token, decided on the whole bracket content.\<close>

definition index_value :: "string \<Rightarrow> index_key" where
  "index_value indexContent =
     (if js_isNaN (js_Number indexContent) then KStr indexContent
      else KNum (js_Number indexContent))"

text \<open>
  The loop of \<^verbatim>\<open>tokenizePath\<close>, lines 201 to 261, on the text from position \<open>i\<close>,
  with the accumulator \<open>cur\<close> and the tokens pushed so far, and lines 263 to 267 at the
  end of the text.
\<close>

function tokenize_loop :: "json_parse \<Rightarrow> string \<Rightarrow> string \<Rightarrow> PathToken list \<Rightarrow> PathToken list" where
  "tokenize_loop J [] cur tokens =
     (if cur \<noteq> [] then tokens @ [Property cur] else tokens)"
| "tokenize_loop J (c # cs) cur tokens =
     (if c = CHR ''.'' then
        (if cur \<noteq> [] then tokenize_loop J cs [] (tokens @ [Property cur])
         else tokenize_loop J cs cur tokens)
      else if c = CHR ''['' then
        (let tokens1 = (if cur \<noteq> [] then tokens @ [Property cur] else tokens);
             r = scan_close CHR ''['' CHR '']'' 1 [] cs
         in tokenize_loop J (snd r) [] (tokens1 @ [Index (index_value (fst r))]))
      else if c = CHR ''('' then
        (let r = scan_close CHR ''('' CHR '')'' 1 [] cs
         in tokenize_loop J (snd r) []
              (tokens @ [FunctionCall cur (parseArguments J (fst r))]))
      else tokenize_loop J cs (cur @ [c]) tokens)"
  by pat_completeness auto
termination
  by (relation "measure (\<lambda>(J, s, cur, tokens). length s)")
     (auto simp: scan_close_length le_imp_less_Suc)

definition tokenizePath :: "json_parse \<Rightarrow> string \<Rightarrow> PathToken list" where
  "tokenizePath J path = tokenize_loop J path [] []"

subsection \<open>Values, objects and the heap\<close>

datatype val = Undefined | Null | Bool bool | Num jsnum | Str string | Ref nat

text \<open>An array carries its \<^verbatim>\<open>length\<close>, a function the identifier of its behaviour.\<close>

datatype kind = Plain | Array nat | Function nat

record obj =
  kind :: kind
  props :: "(string \<times> val) list"

type_synonym heap = "obj list"

datatype error = TypeError | RangeError | Error string

text \<open>
  The behaviour of the functions of the value graph: called with the heap, the receiver
  (\<^verbatim>\<open>this\<close>) and the arguments, a function returns or throws, and leaves a heap.
\<close>

type_synonym fun_table = "nat \<Rightarrow> heap \<Rightarrow> val \<Rightarrow> literal list \<Rightarrow> (error + val) \<times> heap"

definition lookup :: "heap \<Rightarrow> nat \<Rightarrow> obj option" where
  "lookup h a = (if a < length h then Some (h ! a) else None)"

text \<open>\<^verbatim>\<open>v == null\<close>, and \<^verbatim>\<open>!v\<close>.\<close>

definition nullish :: "val \<Rightarrow> bool" where
  "nullish v = (v = Null \<or> v = Undefined)"

definition falsy :: "val \<Rightarrow> bool" where
  "falsy v =
     (case v of
        Undefined \<Rightarrow> True
      | Null \<Rightarrow> True
      | Bool b \<Rightarrow> \<not> b
      | Num n \<Rightarrow> (case n of NaN \<Rightarrow> True | NegZero \<Rightarrow> True | Dec m e \<Rightarrow> m = 0 | _ \<Rightarrow> False)
      | Str s \<Rightarrow> s = []
      | Ref a \<Rightarrow> False)"

text \<open>An array index: the canonical text of a natural number below \<open>2^32 - 1\<close>.\<close>

definition is_array_index :: "string \<Rightarrow> bool" where
  "is_array_index k =
     (k \<noteq> [] \<and> list_all is_digit k \<and> digits_of (nat_of_digits k) = k
      \<and> int (nat_of_digits k) < 4294967295)"

definition num_of_nat :: "nat \<Rightarrow> jsnum" where
  "num_of_nat n = mk_dec False n 0"

definition own :: "obj \<Rightarrow> string \<Rightarrow> val" where
  "own ob k = (case map_of (props ob) k of None \<Rightarrow> Undefined | Some v \<Rightarrow> v)"

text \<open>
  Reading the property \<open>k\<close> of an object: its own property, \<open>Undefined\<close> when it has
  none; an array has its \<^verbatim>\<open>length\<close> besides.
\<close>

definition read_prop :: "obj \<Rightarrow> string \<Rightarrow> val" where
  "read_prop ob k =
     (case kind ob of
        Array n \<Rightarrow> if k = ''length'' then Num (num_of_nat n) else own ob k
      | _ \<Rightarrow> own ob k)"

text \<open>
  \<^verbatim>\<open>cur[k]\<close> read: a TypeError on null and undefined; a string has its length and its
  characters; the other primitives have no member. An address outside the heap is no
  program state, and reading through it fails.
\<close>

definition get_member :: "heap \<Rightarrow> val \<Rightarrow> string \<Rightarrow> error + val" where
  "get_member h cur k =
     (case cur of
        Undefined \<Rightarrow> Inl TypeError
      | Null \<Rightarrow> Inl TypeError
      | Bool b \<Rightarrow> Inr Undefined
      | Num n \<Rightarrow> Inr Undefined
      | Str s \<Rightarrow>
          Inr (if k = ''length'' then Num (num_of_nat (length s))
               else if is_array_index k \<and> nat_of_digits k < length s
                 then Str [s ! nat_of_digits k]
               else Undefined)
      | Ref a \<Rightarrow>
          (case lookup h a of
             None \<Rightarrow> Inl TypeError
           | Some ob \<Rightarrow> Inr (read_prop ob k)))"

text \<open>\<^verbatim>\<open>ToNumber\<close> of a primitive; of an object it is taken to be NaN, as for a plain object.\<close>

definition to_number :: "val \<Rightarrow> jsnum" where
  "to_number v =
     (case v of
        Undefined \<Rightarrow> NaN
      | Null \<Rightarrow> Dec 0 0
      | Bool b \<Rightarrow> (if b then Dec 1 0 else Dec 0 0)
      | Num n \<Rightarrow> n
      | Str s \<Rightarrow> js_Number s
      | Ref a \<Rightarrow> NaN)"

text \<open>The array length a number stands for: a natural number below \<open>2^32\<close>.\<close>

definition array_length_of :: "jsnum \<Rightarrow> nat option" where
  "array_length_of x =
     (case x of
        NegZero \<Rightarrow> Some 0
      | Dec m e \<Rightarrow>
          if m < 0 then None
          else if 0 \<le> e then
            (let n = m * 10 ^ nat e in if n < 4294967296 then Some (nat n) else None)
          else if m mod 10 ^ nat (- e) = 0 then
            (let n = m div 10 ^ nat (- e) in if n < 4294967296 then Some (nat n) else None)
          else None
      | _ \<Rightarrow> None)"

text \<open>
  Writing the property \<open>k\<close> of an object. On an array, an index at or beyond the
  length extends the length, and assigning the length itself drops the elements at and
  beyond the new length (a RangeError when the value is no array length). The
  \<^verbatim>\<open>length\<close> and \<^verbatim>\<open>name\<close> of a function are read-only. A new key comes last
  in creation order.
\<close>

definition write_prop :: "obj \<Rightarrow> string \<Rightarrow> val \<Rightarrow> error + obj" where
  "write_prop ob k v =
     (case kind ob of
        Array n \<Rightarrow>
          if k = ''length'' then
            (case array_length_of (to_number v) of
               None \<Rightarrow> Inl RangeError
             | Some n' \<Rightarrow>
                 Inr (ob\<lparr>kind := Array n',
                         props := filter (\<lambda>p. \<not> (is_array_index (fst p)
                                                \<and> n' \<le> nat_of_digits (fst p)))
                                    (props ob)\<rparr>))
          else if is_array_index k then
            Inr (ob\<lparr>kind := Array (max n (Suc (nat_of_digits k))),
                    props := AList.update k v (props ob)\<rparr>)
          else Inr (ob\<lparr>props := AList.update k v (props ob)\<rparr>)
      | Function f \<Rightarrow>
          if k = ''length'' \<or> k = ''name'' then Inl TypeError
          else Inr (ob\<lparr>props := AList.update k v (props ob)\<rparr>)
      | Plain \<Rightarrow> Inr (ob\<lparr>props := AList.update k v (props ob)\<rparr>))"

text \<open>
  \<^verbatim>\<open>cur[k] = v\<close> in strict mode: a TypeError on a primitive, on null and on undefined.
\<close>

definition set_member :: "heap \<Rightarrow> val \<Rightarrow> string \<Rightarrow> val \<Rightarrow> error + heap" where
  "set_member h cur k v =
     (case cur of
        Ref a \<Rightarrow>
          (case lookup h a of
             None \<Rightarrow> Inl TypeError
           | Some ob \<Rightarrow>
               (case write_prop ob k v of
                  Inl e \<Rightarrow> Inl e
                | Inr ob' \<Rightarrow> Inr (h[a := ob'])))
      | _ \<Rightarrow> Inl TypeError)"

text \<open>\<^verbatim>\<open>Array.isArray(v)\<close>, and the function behind \<^verbatim>\<open>typeof v === 'function'\<close>.\<close>

definition is_array_obj :: "obj \<Rightarrow> bool" where
  "is_array_obj ob = (case kind ob of Array n \<Rightarrow> True | _ \<Rightarrow> False)"

definition isArray :: "heap \<Rightarrow> val \<Rightarrow> bool" where
  "isArray h v =
     (case v of
        Ref a \<Rightarrow> (case lookup h a of Some ob \<Rightarrow> is_array_obj ob | None \<Rightarrow> False)
      | _ \<Rightarrow> False)"

definition function_of :: "heap \<Rightarrow> val \<Rightarrow> nat option" where
  "function_of h v =
     (case v of
        Ref a \<Rightarrow> (case lookup h a of
                    Some ob \<Rightarrow> (case kind ob of Function f \<Rightarrow> Some f | _ \<Rightarrow> None)
                  | None \<Rightarrow> None)
      | _ \<Rightarrow> None)"

subsection \<open>The Path Evaluator\<close>

text \<open>The property key an index token addresses: a number names a property by its text.\<close>

fun key_string :: "index_key \<Rightarrow> string" where
  "key_string (KNum n) = num_to_string n"
| "key_string (KStr s) = s"

text \<open>
  The loop of \<^verbatim>\<open>evaluatePath\<close>, lines 110 to 132, on the tokens left. The result is
  the value returned or the error thrown, and the heap the calls have left.
\<close>

fun eval_tokens :: "fun_table \<Rightarrow> heap \<Rightarrow> val \<Rightarrow> PathToken list \<Rightarrow> val \<Rightarrow> (error + val) \<times> heap" where
  "eval_tokens F h cur [] d = (Inr (if cur \<noteq> Undefined then cur else d), h)"
| "eval_tokens F h cur (t # ts) d =
     (if nullish cur then (Inr d, h)
      else
        (case t of
           Property name \<Rightarrow>
             (case get_member h cur name of
                Inl e \<Rightarrow> (Inl e, h)
              | Inr v \<Rightarrow> eval_tokens F h v ts d)
         | Index key \<Rightarrow>
             (case get_member h cur (key_string key) of
                Inl e \<Rightarrow> (Inl e, h)
              | Inr v \<Rightarrow> eval_tokens F h v ts d)
         | FunctionCall name as \<Rightarrow>
             (case get_member h cur name of
                Inl e \<Rightarrow> (Inl e, h)
              | Inr f \<Rightarrow>
                  (case function_of h f of
                     None \<Rightarrow> (Inr d, h)
                   | Some fid \<Rightarrow>
                       (case F fid h cur as of
                          (Inl e, h') \<Rightarrow> (Inl e, h')
                        | (Inr v, h') \<Rightarrow> eval_tokens F h' v ts d)))))"

definition evaluatePath :: "fun_table \<Rightarrow> json_parse \<Rightarrow> heap \<Rightarrow> val \<Rightarrow> string \<Rightarrow> val \<Rightarrow> (error + val) \<times> heap" where
  "evaluatePath F J h obj path defaultValue =
     eval_tokens F h obj (tokenizePath J path) defaultValue"

text \<open>
  \<^verbatim>\<open>LGet\<close>, lines 73 to 82. The path is a string by type, so the \<^verbatim>\<open>typeof\<close> test of
  line 74 is settled; an absent default is \<open>Undefined\<close>.
\<close>

definition LGet :: "fun_table \<Rightarrow> json_parse \<Rightarrow> heap \<Rightarrow> val \<Rightarrow> string \<Rightarrow> val \<Rightarrow> val \<times> heap" where
  "LGet F J h obj path defaultValue =
     (if falsy obj then (defaultValue, h)
      else (case evaluatePath F J h obj path defaultValue of
              (Inr v, h') \<Rightarrow> (v, h')
            | (Inl e, h') \<Rightarrow> (defaultValue, h')))"

subsection \<open>The Path Mutator\<close>

text \<open>Lines 151 and 161: \<^verbatim>\<open>[]\<close> when the next token is an index, \<^verbatim>\<open>{}\<close> otherwise.\<close>

definition new_container :: "PathToken \<Rightarrow> obj" where
  "new_container nextToken =
     (case nextToken of
        Index key \<Rightarrow> \<lparr>kind = Array 0, props = []\<rparr>
      | _ \<Rightarrow> \<lparr>kind = Plain, props = []\<rparr>)"

text \<open>
  Lines 148 to 153 and 159 to 163: read \<^verbatim>\<open>cur[k]\<close>, put a new container there when
  it is null or undefined, and read \<^verbatim>\<open>cur[k]\<close> again. The container is allocated at
  the end of the heap; when the assignment throws, nothing refers to it, and the heap
  is left as it was.
\<close>

definition descend :: "heap \<Rightarrow> val \<Rightarrow> string \<Rightarrow> PathToken \<Rightarrow> (error + val) \<times> heap" where
  "descend h cur k nextToken =
     (case get_member h cur k of
        Inl e \<Rightarrow> (Inl e, h)
      | Inr v \<Rightarrow>
          if nullish v then
            (case set_member (h @ [new_container nextToken]) cur k (Ref (length h)) of
               Inl e \<Rightarrow> (Inl e, h)
             | Inr h' \<Rightarrow>
                 (case get_member h' cur k of
                    Inl e \<Rightarrow> (Inl e, h')
                  | Inr v' \<Rightarrow> (Inr v', h')))
          else
            (case get_member h cur k of
               Inl e \<Rightarrow> (Inl e, h)
             | Inr v' \<Rightarrow> (Inr v', h)))"

text \<open>One iteration of the loop of lines 143 to 173, at token \<open>t\<close> followed by \<open>nextToken\<close>.\<close>

definition set_step :: "fun_table \<Rightarrow> heap \<Rightarrow> val \<Rightarrow> PathToken \<Rightarrow> PathToken \<Rightarrow> (error + val) \<times> heap" where
  "set_step F h cur t nextToken =
     (case t of
        Property name \<Rightarrow> descend h cur name nextToken
      | Index key \<Rightarrow>
          if \<not> isArray h cur
          then (Inl (Error ''Cannot access array index on non-array''), h)
          else descend h cur (key_string key) nextToken
      | FunctionCall name as \<Rightarrow>
          (case get_member h cur name of
             Inl e \<Rightarrow> (Inl e, h)
           | Inr f \<Rightarrow>
               (case function_of h f of
                  None \<Rightarrow> (Inl (Error (''Function '' @ name @ '' not found'')), h)
                | Some fid \<Rightarrow> F fid h cur as)))"

text \<open>Lines 176 to 190: the last token.\<close>

definition set_last :: "heap \<Rightarrow> val \<Rightarrow> PathToken \<Rightarrow> val \<Rightarrow> (error + unit) \<times> heap" where
  "set_last h cur lastToken v =
     (case lastToken of
        Property name \<Rightarrow>
          (case set_member h cur name v of
             Inl e \<Rightarrow> (Inl e, h)
           | Inr h' \<Rightarrow> (Inr (), h'))
      | Index key \<Rightarrow>
          if \<not> isArray h cur
          then (Inl (Error ''Cannot set array index on non-array''), h)
          else (case set_member h cur (key_string key) v of
                  Inl e \<Rightarrow> (Inl e, h)
                | Inr h' \<Rightarrow> (Inr (), h'))
      | FunctionCall name as \<Rightarrow>
          (Inl (Error ''Cannot set value to function call result directly''), h))"

text \<open>
  \<^verbatim>\<open>setValueAtPath\<close> on the tokens left: with no token at all the loop does not run and
  the \<^verbatim>\<open>switch\<close> on the absent last token does nothing.
\<close>

fun set_tokens :: "fun_table \<Rightarrow> heap \<Rightarrow> val \<Rightarrow> PathToken list \<Rightarrow> val \<Rightarrow> (error + unit) \<times> heap" where
  "set_tokens F h cur [] v = (Inr (), h)"
| "set_tokens F h cur [t] v = set_last h cur t v"
| "set_tokens F h cur (t # t' # ts) v =
     (case set_step F h cur t t' of
        (Inl e, h') \<Rightarrow> (Inl e, h')
      | (Inr cur', h') \<Rightarrow> set_tokens F h' cur' (t' # ts) v)"

definition setValueAtPath :: "fun_table \<Rightarrow> json_parse \<Rightarrow> heap \<Rightarrow> val \<Rightarrow> string \<Rightarrow> val \<Rightarrow> (error + unit) \<times> heap" where
  "setValueAtPath F J h obj path v = set_tokens F h obj (tokenizePath J path) v"

text \<open>\<^verbatim>\<open>LSet\<close>, lines 91 to 101: the root comes back on either way out.\<close>

definition LSet :: "fun_table \<Rightarrow> json_parse \<Rightarrow> heap \<Rightarrow> val \<Rightarrow> string \<Rightarrow> val \<Rightarrow> val \<times> heap" where
  "LSet F J h obj path v =
     (if falsy obj then (obj, h)
      else (case setValueAtPath F J h obj path v of
              (Inr u, h') \<Rightarrow> (obj, h')
            | (Inl e, h') \<Rightarrow> (obj, h')))"

subsection \<open>The walk of the mutator, for stating its properties\<close>

text \<open>
  The property key a token addresses, and the tokens that are calls or indices.
\<close>

fun token_key :: "PathToken \<Rightarrow> string" where
  "token_key (Property name) = name"
| "token_key (Index key) = key_string key"
| "token_key (FunctionCall name as) = name"

fun is_call :: "PathToken \<Rightarrow> bool" where
  "is_call (FunctionCall name as) = True"
| "is_call t = False"

fun is_index :: "PathToken \<Rightarrow> bool" where
  "is_index (Index key) = True"
| "is_index t = False"




text \<open>
  How the kind of an object may change: an array may grow, nothing else changes.
\<close>

definition kind_le :: "kind \<Rightarrow> kind \<Rightarrow> bool" where
  "kind_le x y =
     (case x of
        Array n \<Rightarrow> (case y of Array n' \<Rightarrow> n \<le> n' | _ \<Rightarrow> False)
      | _ \<Rightarrow> y = x)"


subsection \<open>An example environment\<close>

text \<open>
  For the concrete instances below: a \<^verbatim>\<open>JSON.parse\<close> that always throws, and a
  table of two functions. Function 0 is
  \<^verbatim>\<open>function () { const v = this.item; this.item = null; return v; }\<close>, every other
  one is \<^verbatim>\<open>function () { delete this.items; return this; }\<close>.
\<close>

definition no_json :: json_parse where
  "no_json s = None"

definition example_table :: fun_table where
  "example_table f h this as =
     (if f = 0 then
        (case get_member h this ''item'' of
           Inl e \<Rightarrow> (Inl e, h)
         | Inr v \<Rightarrow>
             (case set_member h this ''item'' Null of
                Inl e \<Rightarrow> (Inl e, h)
              | Inr h' \<Rightarrow> (Inr v, h')))
      else
        (case this of
           Ref a \<Rightarrow>
             (case lookup h a of
                None \<Rightarrow> (Inl TypeError, h)
              | Some ob \<Rightarrow>
                  (Inr this, h[a := ob\<lparr>props := AList.delete ''items'' (props ob)\<rparr>]))
         | _ \<Rightarrow> (Inl TypeError, h)))"

subsection \<open>The recognition order of the Value Literal Parser, as the specification lists it\<close>






section \<open>Reading and writing members\<close>

lemma kind_le_refl [simp]: "kind_le x x"
  by (simp add: kind_le_def split: kind.splits)


lemma read_write_same:
  "write_prop ob k v = Inr ob' \<Longrightarrow> \<not> (is_array_obj ob \<and> k = ''length'')
     \<Longrightarrow> read_prop ob' k = v"
  by (cases "kind ob")
     (auto simp: write_prop_def read_prop_def is_array_obj_def own_def update_conv'
           split: if_splits)


lemma is_array_write:
  "write_prop ob k v = Inr ob' \<Longrightarrow> is_array_obj ob' = is_array_obj ob"
  by (cases "kind ob")
     (auto simp: write_prop_def is_array_obj_def split: if_splits option.splits)


lemma set_member_Ref:
  "set_member h c k v = Inr h' \<longleftrightarrow>
     (\<exists>b ob ob'. c = Ref b \<and> b < length h \<and> ob = h ! b \<and> write_prop ob k v = Inr ob'
                 \<and> h' = h[b := ob'])"
  by (cases c) (auto simp: set_member_def lookup_def split: sum.splits)

lemma get_member_Ref:
  "get_member h (Ref a) k = (if a < length h then Inr (read_prop (h ! a) k) else Inl TypeError)"
  by (simp add: get_member_def lookup_def)

lemma isArray_Ref:
  "isArray h (Ref a) = (a < length h \<and> is_array_obj (h ! a))"
  by (simp add: isArray_def lookup_def)

lemma isArray_prim [simp]:
  "isArray h Undefined = False" "isArray h Null = False" "isArray h (Bool b) = False"
  "isArray h (Num n) = False" "isArray h (Str s) = False"
  by (simp_all add: isArray_def)

lemma get_member_prim_simps [simp]:
  "get_member h Undefined k = Inl TypeError" "get_member h Null k = Inl TypeError"
  "get_member h (Bool b) k = Inr Undefined" "get_member h (Num n) k = Inr Undefined"
  by (simp_all add: get_member_def)

lemma set_member_length:
  "set_member h c k v = Inr h' \<Longrightarrow> length h' = length h"
  by (auto simp: set_member_Ref)

lemma isArray_set_member:
  "set_member h c k v = Inr h' \<Longrightarrow> isArray h' x = isArray h x"
  by (cases x)
     (auto simp: set_member_Ref isArray_Ref nth_list_update
           dest: is_array_write split: if_splits)

lemma get_set_same:
  "set_member h c k v = Inr h' \<Longrightarrow> \<not> (isArray h c \<and> k = ''length'')
     \<Longrightarrow> get_member h' c k = Inr v"
  by (auto simp: set_member_Ref get_member_Ref isArray_Ref read_write_same)

lemma get_member_prim:
  "\<forall>a. x \<noteq> Ref a \<Longrightarrow> get_member h' x kx = get_member h x kx"
  by (cases x) (auto simp: get_member_def)



lemma read_prop_nullish_not_length:
  "nullish (read_prop ob k) \<Longrightarrow> \<not> (is_array_obj ob \<and> k = ''length'')"
  by (cases "kind ob") (auto simp: read_prop_def is_array_obj_def nullish_def)

lemma get_member_Ref_from_Ref:
  "get_member h x kx = Inr (Ref w) \<Longrightarrow> \<exists>a. x = Ref a \<and> a < length h"
  by (cases x) (auto simp: get_member_def lookup_def split: if_splits)


lemma get_member_nullish_not_length:
  "get_member h x kx = Inr w \<Longrightarrow> nullish w \<Longrightarrow> \<not> (isArray h x \<and> kx = ''length'')"
  by (cases x)
     (auto simp: get_member_Ref isArray_Ref
           dest: read_prop_nullish_not_length split: if_splits)


lemma isArray_append:
  "get_member h x kx = Inr w \<Longrightarrow> isArray (h @ [ob]) x = isArray h x"
  by (cases x) (auto simp: get_member_def isArray_def lookup_def nth_append split: if_splits)

section \<open>Steps of the mutator on property and index tokens\<close>

lemma descend_cases:
  assumes "descend h cur k nxt = (Inr c, h')"
  shows "(get_member h cur k = Inr c \<and> \<not> nullish c \<and> h' = h)
       \<or> (\<exists>w. get_member h cur k = Inr w \<and> nullish w \<and> c = Ref (length h)
              \<and> set_member (h @ [new_container nxt]) cur k (Ref (length h)) = Inr h')"
proof (cases "get_member h cur k")
  case (Inl e)
  with assms show ?thesis by (simp add: descend_def)
next
  case (Inr w)
  show ?thesis
  proof (cases "nullish w")
    case False
    with Inr assms show ?thesis by (auto simp: descend_def)
  next
    case True
    with Inr assms obtain h1 where
      h1: "set_member (h @ [new_container nxt]) cur k (Ref (length h)) = Inr h1"
      by (auto simp: descend_def split: sum.splits)
    from get_member_nullish_not_length [OF Inr True]
    have "\<not> (isArray (h @ [new_container nxt]) cur \<and> k = ''length'')"
      by (simp add: isArray_append [OF Inr])
    from get_set_same [OF h1 this] Inr True h1 assms show ?thesis
      by (auto simp: descend_def)
  qed
qed

lemma descend_reads_back:
  assumes "descend h cur k nxt = (Inr c, h')"
  shows "get_member h' cur k = Inr c \<and> \<not> nullish c"
proof -
  from descend_cases [OF assms] show ?thesis
  proof
    assume "get_member h cur k = Inr c \<and> \<not> nullish c \<and> h' = h"
    then show ?thesis by simp
  next
    assume "\<exists>w. get_member h cur k = Inr w \<and> nullish w \<and> c = Ref (length h)
              \<and> set_member (h @ [new_container nxt]) cur k (Ref (length h)) = Inr h'"
    then obtain w where w: "get_member h cur k = Inr w" "nullish w" "c = Ref (length h)"
      "set_member (h @ [new_container nxt]) cur k (Ref (length h)) = Inr h'" by blast
    from get_member_nullish_not_length [OF w(1,2)]
    have "\<not> (isArray (h @ [new_container nxt]) cur \<and> k = ''length'')"
      by (simp add: isArray_append [OF w(1)])
    from get_set_same [OF w(4) this] w(3) show ?thesis by (simp add: nullish_def)
  qed
qed


lemma set_step_call_free:
  "\<not> is_call t \<Longrightarrow> set_step F h cur t nxt =
     (if is_index t \<and> \<not> isArray h cur
      then (Inl (Error ''Cannot access array index on non-array''), h)
      else descend h cur (token_key t) nxt)"
  by (cases t) (simp_all add: set_step_def)









section \<open>What the mutator keeps\<close>













lemma new_container_is_array:
  "is_array_obj (new_container nxt) = is_index nxt"
  by (cases nxt) (simp_all add: new_container_def is_array_obj_def)

lemma descend_vivifies:
  assumes "descend h cur k nxt = (Inr c, h')" "get_member h cur k = Inr w" "nullish w"
  shows "c = Ref (length h) \<and> length h' = Suc (length h)
         \<and> h' ! length h = new_container nxt
         \<and> get_member h' cur k = Inr c \<and> isArray h' c = is_index nxt"
proof -
  from descend_cases [OF assms(1)] assms(2,3)
  have c: "c = Ref (length h)"
    and sm: "set_member (h @ [new_container nxt]) cur k (Ref (length h)) = Inr h'"
    by auto
  from sm obtain b ob' where b0: "cur = Ref b"
    and h': "h' = (h @ [new_container nxt])[b := ob']"
    by (auto simp: set_member_Ref)
  from assms(2) b0 have b: "b < length h"
    by (simp add: get_member_Ref split: if_splits)
  from h' b have "h' ! length h = new_container nxt" "length h' = Suc (length h)"
    by (simp_all add: nth_list_update nth_append)
  with c descend_reads_back [OF assms(1)] show ?thesis
    by (simp add: isArray_Ref new_container_is_array)
qed

section \<open>Properties\<close>

subsection \<open>The public operations never throw\<close>

text \<open>
  Claim C1. \<^verbatim>\<open>LGet\<close> and \<^verbatim>\<open>LSet\<close> return for every root, path and value: their
  results carry no error. Whenever \<^verbatim>\<open>evaluatePath\<close> throws, \<^verbatim>\<open>LGet\<close> returns the
  default value; whenever \<^verbatim>\<open>setValueAtPath\<close> throws, \<^verbatim>\<open>LSet\<close> returns the root
  with the heap as the failure left it; and \<^verbatim>\<open>LSet\<close> returns the root in every case.
\<close>

theorem LGet_LSet_total:
  "(\<forall>e. fst (evaluatePath F J h obj path d) = Inl e \<longrightarrow> fst (LGet F J h obj path d) = d)
   \<and> (\<forall>e. fst (setValueAtPath F J h obj path v) = Inl e \<longrightarrow>
         LSet F J h obj path v
           = (obj, if falsy obj then h else snd (setValueAtPath F J h obj path v)))
   \<and> fst (LSet F J h obj path v) = obj"
  by (auto simp: LGet_def LSet_def split: prod.splits sum.splits)

theorem LGet_LSet_total_witness:
  "fst (evaluatePath (\<lambda>f h this as. (Inl (Error ''boom''), h)) (\<lambda>s. None)
          [\<lparr>kind = Plain, props = [(''f'', Ref 1)]\<rparr>, \<lparr>kind = Function 0, props = []\<rparr>]
          (Ref 0) ''f()'' (Str ''d'')) = Inl (Error ''boom'')
   \<and> fst (LGet (\<lambda>f h this as. (Inl (Error ''boom''), h)) (\<lambda>s. None)
          [\<lparr>kind = Plain, props = [(''f'', Ref 1)]\<rparr>, \<lparr>kind = Function 0, props = []\<rparr>]
          (Ref 0) ''f()'' (Str ''d'')) = Str ''d''
   \<and> fst (setValueAtPath (\<lambda>f h this as. (Inl (Error ''boom''), h)) (\<lambda>s. None)
          [\<lparr>kind = Plain, props = [(''f'', Ref 1)]\<rparr>, \<lparr>kind = Function 0, props = []\<rparr>]
          (Ref 0) ''f()'' Null)
       = Inl (Error ''Cannot set value to function call result directly'')
   \<and> LSet (\<lambda>f h this as. (Inl (Error ''boom''), h)) (\<lambda>s. None)
          [\<lparr>kind = Plain, props = [(''f'', Ref 1)]\<rparr>, \<lparr>kind = Function 0, props = []\<rparr>]
          (Ref 0) ''f()'' Null
       = (Ref 0, [\<lparr>kind = Plain, props = [(''f'', Ref 1)]\<rparr>, \<lparr>kind = Function 0, props = []\<rparr>])"
proof -
  let ?F = "\<lambda>(f::nat) (h::heap) (this::val) (as::literal list).
              (Inl (Error ''boom'') :: error + val, h)"
  let ?J = "\<lambda>s::string. (None :: literal option)"
  let ?h = "[\<lparr>kind = Plain, props = [(''f'', Ref 1)]\<rparr>, \<lparr>kind = Function 0, props = []\<rparr>]"
  have e: "fst (evaluatePath ?F ?J ?h (Ref 0) ''f()'' (Str ''d'')) = Inl (Error ''boom'')"
    by code_simp
  have s: "setValueAtPath ?F ?J ?h (Ref 0) ''f()'' Null
             = (Inl (Error ''Cannot set value to function call result directly''), ?h)"
    by code_simp
  have f: "\<not> falsy (Ref 0)"
    by (simp add: falsy_def)
  show ?thesis
    using e s f LGet_LSet_total [of ?F ?J ?h "Ref 0" "''f()''" "Str ''d''" Null]
    by simp
qed

subsection \<open>A falsy root\<close>

text \<open>
  Claim C9. Each of null, undefined, 0, the empty string, false and NaN is falsy; and on
  a falsy root, whatever the path (the empty one too), \<^verbatim>\<open>LGet\<close> returns the default
  and \<^verbatim>\<open>LSet\<close> returns the root, both leaving the heap as it was.
\<close>

theorem falsy_root:
  "(obj \<in> {Null, Undefined, Num (Dec 0 0), Str [], Bool False, Num NaN} \<longrightarrow> falsy obj)
   \<and> (falsy obj \<longrightarrow> LGet F J h obj path d = (d, h) \<and> LSet F J h obj path v = (obj, h))"
  by (auto simp: falsy_def LGet_def LSet_def)

theorem falsy_root_witness:
  "Num (Dec 0 0) \<in> {Null, Undefined, Num (Dec 0 0), Str [], Bool False, Num NaN}
   \<and> falsy (Num (Dec 0 0))
   \<and> LGet (\<lambda>f h this as. (Inr Undefined, h)) (\<lambda>s. None) [] (Num (Dec 0 0)) [] (Str ''d'')
       = (Str ''d'', [])
   \<and> LSet (\<lambda>f h this as. (Inr Undefined, h)) (\<lambda>s. None) [] (Num (Dec 0 0)) [] (Str ''v'')
       = (Num (Dec 0 0), [])"
  using falsy_root [of "Num (Dec 0 0)" "\<lambda>f h this as. (Inr Undefined, h)" "\<lambda>s. None"
                       "[]" "[]" "Str ''d''" "Str ''v''"]
  by simp

subsection \<open>The key of an index token\<close>

text \<open>
  Claim C4. Tokenizing \<^verbatim>\<open>x[3]\<close> gives an index token with the number 3, tokenizing
  \<^verbatim>\<open>x[ab]\<close> one with the string \<^verbatim>\<open>ab\<close>; at every bracket the tokenizer decides
  the key by the numeric test on the whole bracket content. The evaluator and the
  mutator work on the tokens the tokenizer made, and the evaluator reads an index token
  as it reads the property its key names, without looking at the text again.
\<close>

theorem index_key_typing:
  "tokenizePath J ''x[3]'' = [Property ''x'', Index (KNum (Dec 3 0))]
   \<and> tokenizePath J ''x[ab]'' = [Property ''x'', Index (KStr ''ab'')]
   \<and> tokenize_loop J (CHR ''['' # cs) [] tokens =
       tokenize_loop J (snd (scan_close CHR ''['' CHR '']'' 1 [] cs)) []
         (tokens @ [Index (let c = fst (scan_close CHR ''['' CHR '']'' 1 [] cs) in
                           if js_isNaN (js_Number c) then KStr c else KNum (js_Number c))])
   \<and> evaluatePath F J h obj path d = eval_tokens F h obj (tokenizePath J path) d
   \<and> setValueAtPath F J h obj path v = set_tokens F h obj (tokenizePath J path) v
   \<and> eval_tokens F h cur (Index key # ts) d
       = eval_tokens F h cur (Property (key_string key) # ts) d"
proof -
  have a: "tokenizePath J ''x[3]'' = [Property ''x'', Index (KNum (Dec 3 0))]"
    by code_simp
  have b: "tokenizePath J ''x[ab]'' = [Property ''x'', Index (KStr ''ab'')]"
    by code_simp
  show ?thesis
    using a b by (simp add: index_value_def evaluatePath_def setValueAtPath_def Let_def)
qed

subsection \<open>The Argument List Parser\<close>



subsection \<open>The Value Literal Parser\<close>



subsection \<open>Writing, then reading\<close>




subsection \<open>Auto-vivification\<close>

text \<open>
  Claim C3. From the empty mapping, \<^verbatim>\<open>LSet\<close> with \<^verbatim>\<open>a.b[0].c\<close> and 5 leaves a root
  whose \<^verbatim>\<open>a\<close> is a mapping, \<^verbatim>\<open>a.b\<close> an array (of length 1), \<^verbatim>\<open>a.b[0]\<close> a
  mapping, and \<^verbatim>\<open>LGet\<close> reads 5 at the path. In general, a loop step on a property
  or index token that succeeds returns what it read when that is neither null nor
  undefined, and otherwise puts and returns a new container: an empty array when the
  next token is an index, an empty mapping otherwise.
\<close>

theorem auto_vivification:
  "LSet F J [\<lparr>kind = Plain, props = []\<rparr>] (Ref 0) ''a.b[0].c'' (Num (Dec 5 0))
     = (Ref 0, [\<lparr>kind = Plain, props = [(''a'', Ref 1)]\<rparr>,
                \<lparr>kind = Plain, props = [(''b'', Ref 2)]\<rparr>,
                \<lparr>kind = Array 1, props = [(''0'', Ref 3)]\<rparr>,
                \<lparr>kind = Plain, props = [(''c'', Num (Dec 5 0))]\<rparr>])
   \<and> LGet F J [\<lparr>kind = Plain, props = [(''a'', Ref 1)]\<rparr>,
               \<lparr>kind = Plain, props = [(''b'', Ref 2)]\<rparr>,
               \<lparr>kind = Array 1, props = [(''0'', Ref 3)]\<rparr>,
               \<lparr>kind = Plain, props = [(''c'', Num (Dec 5 0))]\<rparr>] (Ref 0) ''a.b[0].c'' d
     = (Num (Dec 5 0), [\<lparr>kind = Plain, props = [(''a'', Ref 1)]\<rparr>,
                        \<lparr>kind = Plain, props = [(''b'', Ref 2)]\<rparr>,
                        \<lparr>kind = Array 1, props = [(''0'', Ref 3)]\<rparr>,
                        \<lparr>kind = Plain, props = [(''c'', Num (Dec 5 0))]\<rparr>])
   \<and> (\<not> is_call t \<and> get_member h cur (token_key t) = Inr w
        \<and> set_step F h cur t nxt = (Inr c, h')
      \<longrightarrow> (if nullish w
           then c = Ref (length h) \<and> length h' = Suc (length h)
                \<and> h' ! length h = (if is_index nxt then \<lparr>kind = Array 0, props = []\<rparr>
                                    else \<lparr>kind = Plain, props = []\<rparr>)
                \<and> get_member h' cur (token_key t) = Inr c
           else c = w \<and> h' = h))"
proof -
  have a: "LSet F J [\<lparr>kind = Plain, props = []\<rparr>] (Ref 0) ''a.b[0].c'' (Num (Dec 5 0))
     = (Ref 0, [\<lparr>kind = Plain, props = [(''a'', Ref 1)]\<rparr>,
                \<lparr>kind = Plain, props = [(''b'', Ref 2)]\<rparr>,
                \<lparr>kind = Array 1, props = [(''0'', Ref 3)]\<rparr>,
                \<lparr>kind = Plain, props = [(''c'', Num (Dec 5 0))]\<rparr>])"
    by code_simp
  have b: "LGet F J [\<lparr>kind = Plain, props = [(''a'', Ref 1)]\<rparr>,
               \<lparr>kind = Plain, props = [(''b'', Ref 2)]\<rparr>,
               \<lparr>kind = Array 1, props = [(''0'', Ref 3)]\<rparr>,
               \<lparr>kind = Plain, props = [(''c'', Num (Dec 5 0))]\<rparr>] (Ref 0) ''a.b[0].c'' d
     = (Num (Dec 5 0), [\<lparr>kind = Plain, props = [(''a'', Ref 1)]\<rparr>,
                        \<lparr>kind = Plain, props = [(''b'', Ref 2)]\<rparr>,
                        \<lparr>kind = Array 1, props = [(''0'', Ref 3)]\<rparr>,
                        \<lparr>kind = Plain, props = [(''c'', Num (Dec 5 0))]\<rparr>])"
    by code_simp
  have c: "if nullish w
           then c = Ref (length h) \<and> length h' = Suc (length h)
                \<and> h' ! length h = (if is_index nxt then \<lparr>kind = Array 0, props = []\<rparr>
                                    else \<lparr>kind = Plain, props = []\<rparr>)
                \<and> get_member h' cur (token_key t) = Inr c
           else c = w \<and> h' = h"
    if nc: "\<not> is_call t" and g: "get_member h cur (token_key t) = Inr w"
      and st: "set_step F h cur t nxt = (Inr c, h')"
  proof -
    from nc st have d: "descend h cur (token_key t) nxt = (Inr c, h')"
      by (simp add: set_step_call_free split: if_splits)
    have n: "new_container nxt = (if is_index nxt then \<lparr>kind = Array 0, props = []\<rparr>
                                    else \<lparr>kind = Plain, props = []\<rparr>)"
      by (cases nxt) (simp_all add: new_container_def)
    show ?thesis
    proof (cases "nullish w")
      case True
      with descend_vivifies [OF d g True] n show ?thesis by simp
    next
      case False
      with descend_cases [OF d] g show ?thesis by auto
    qed
  qed
  from a b c show ?thesis by blast
qed

theorem auto_vivification_witness:
  "\<not> is_call (Property ''b'')
   \<and> get_member [\<lparr>kind = Plain, props = []\<rparr>] (Ref 0) (token_key (Property ''b'')) = Inr Undefined
   \<and> set_step example_table [\<lparr>kind = Plain, props = []\<rparr>] (Ref 0) (Property ''b'')
        (Index (KNum (Dec 0 0)))
       = (Inr (Ref 1), [\<lparr>kind = Plain, props = [(''b'', Ref 1)]\<rparr>, \<lparr>kind = Array 0, props = []\<rparr>])
   \<and> [\<lparr>kind = Plain, props = [(''b'', Ref 1)]\<rparr>, \<lparr>kind = Array 0, props = []\<rparr>] ! 1
       = \<lparr>kind = Array 0, props = []\<rparr>"
proof -
  let ?h = "[\<lparr>kind = Plain, props = []\<rparr>]"
  let ?h' = "[\<lparr>kind = Plain, props = [(''b'', Ref 1)]\<rparr>, \<lparr>kind = Array 0, props = []\<rparr>]"
  have 1: "\<not> is_call (Property ''b'')"
    by simp
  have 2: "get_member ?h (Ref 0) (token_key (Property ''b'')) = Inr Undefined"
    by code_simp
  have 3: "set_step example_table ?h (Ref 0) (Property ''b'') (Index (KNum (Dec 0 0)))
             = (Inr (Ref 1), ?h')"
    by code_simp
  from auto_vivification [of example_table no_json "Undefined" "Property ''b''" ?h "Ref 0"
      Undefined "Index (KNum (Dec 0 0))" "Ref 1" ?h'] 1 2 3
  show ?thesis
    by (simp add: nullish_def)
qed

subsection \<open>What a write keeps\<close>




subsection \<open>Reading twice\<close>




subsection \<open>An index token on an object that is no array\<close>

text \<open>
  Claim C10. At a plain object, the evaluator reads an index token as the member its
  key names, while the mutator throws without assigning: \<^verbatim>\<open>Cannot set array index
  on non-array\<close> at the last token, \<^verbatim>\<open>Cannot access array index on non-array\<close>
  before it. So, when \<^verbatim>\<open>root.a\<close> is a plain object, \<^verbatim>\<open>LGet\<close> on \<^verbatim>\<open>a[name]\<close>
  returns \<^verbatim>\<open>root.a.name\<close> (the default when it is undefined), and \<^verbatim>\<open>LSet\<close> on
  the same path returns the root with the heap unchanged.
\<close>

theorem index_on_plain_object:
  assumes "lookup h x = Some ob" and "kind ob = Plain"
  shows "eval_tokens F h (Ref x) (Index key # ts) d
           = eval_tokens F h (own ob (key_string key)) ts d
         \<and> set_tokens F h (Ref x) [Index key] v
           = (Inl (Error ''Cannot set array index on non-array''), h)
         \<and> set_tokens F h (Ref x) (Index key # t' # ts) v
           = (Inl (Error ''Cannot access array index on non-array''), h)
         \<and> (get_member h obj ''a'' = Inr (Ref x) \<longrightarrow>
              LGet F J h obj ''a[name]'' d
                = (if own ob ''name'' = Undefined then d else own ob ''name'', h)
              \<and> setValueAtPath F J h obj ''a[name]'' v
                = (Inl (Error ''Cannot set array index on non-array''), h)
              \<and> LSet F J h obj ''a[name]'' v = (obj, h))"
proof -
  from assms have ia: "\<not> isArray h (Ref x)"
    by (simp add: isArray_def is_array_obj_def)
  from assms have g: "\<And>k. get_member h (Ref x) k = Inr (own ob k)"
    by (simp add: get_member_def read_prop_def)
  from g have 1: "eval_tokens F h (Ref x) (Index key # ts) d
           = eval_tokens F h (own ob (key_string key)) ts d"
    by (simp add: nullish_def)
  from ia have 2: "set_tokens F h (Ref x) [Index key] v
           = (Inl (Error ''Cannot set array index on non-array''), h)"
    by (simp add: set_last_def)
  from ia have 3: "set_tokens F h (Ref x) (Index key # t' # ts) v
           = (Inl (Error ''Cannot access array index on non-array''), h)"
    by (simp add: set_step_def)
  have 4: "LGet F J h obj ''a[name]'' d
             = (if own ob ''name'' = Undefined then d else own ob ''name'', h)
           \<and> setValueAtPath F J h obj ''a[name]'' v
             = (Inl (Error ''Cannot set array index on non-array''), h)
           \<and> LSet F J h obj ''a[name]'' v = (obj, h)"
    if r: "get_member h obj ''a'' = Inr (Ref x)"
  proof -
    have tk: "tokenizePath J ''a[name]'' = [Property ''a'', Index (KStr ''name'')]"
      by code_simp
    from get_member_Ref_from_Ref [OF r] obtain b where b: "obj = Ref b" by blast
    then have nf: "\<not> falsy obj" "\<not> nullish obj" by (simp_all add: falsy_def nullish_def)
    from r have d: "descend h obj ''a'' (Index (KStr ''name'')) = (Inr (Ref x), h)"
      by (simp add: descend_def nullish_def)
    from nf r g have e: "evaluatePath F J h obj ''a[name]'' d
                          = (Inr (if own ob ''name'' = Undefined then d else own ob ''name''), h)"
      by (auto simp: evaluatePath_def tk nullish_def)
    from d ia have s: "setValueAtPath F J h obj ''a[name]'' v
             = (Inl (Error ''Cannot set array index on non-array''), h)"
      by (simp add: setValueAtPath_def tk set_step_def set_last_def)
    from nf e s show ?thesis by (simp add: LGet_def LSet_def)
  qed
  from 1 2 3 4 show ?thesis by blast
qed

theorem index_on_plain_object_witness:
  "lookup [\<lparr>kind = Plain, props = [(''a'', Ref 1)]\<rparr>,
           \<lparr>kind = Plain, props = [(''name'', Str ''n'')]\<rparr>] 1
     = Some \<lparr>kind = Plain, props = [(''name'', Str ''n'')]\<rparr>
   \<and> get_member [\<lparr>kind = Plain, props = [(''a'', Ref 1)]\<rparr>,
                 \<lparr>kind = Plain, props = [(''name'', Str ''n'')]\<rparr>] (Ref 0) ''a'' = Inr (Ref 1)
   \<and> LGet example_table no_json
        [\<lparr>kind = Plain, props = [(''a'', Ref 1)]\<rparr>,
         \<lparr>kind = Plain, props = [(''name'', Str ''n'')]\<rparr>] (Ref 0) ''a[name]'' Undefined
       = (Str ''n'', [\<lparr>kind = Plain, props = [(''a'', Ref 1)]\<rparr>,
                      \<lparr>kind = Plain, props = [(''name'', Str ''n'')]\<rparr>])
   \<and> LSet example_table no_json
        [\<lparr>kind = Plain, props = [(''a'', Ref 1)]\<rparr>,
         \<lparr>kind = Plain, props = [(''name'', Str ''n'')]\<rparr>] (Ref 0) ''a[name]'' (Str ''m'')
       = (Ref 0, [\<lparr>kind = Plain, props = [(''a'', Ref 1)]\<rparr>,
                  \<lparr>kind = Plain, props = [(''name'', Str ''n'')]\<rparr>])"
proof -
  let ?ob = "\<lparr>kind = Plain, props = [(''name'', Str ''n'')]\<rparr>"
  let ?h = "[\<lparr>kind = Plain, props = [(''a'', Ref 1)]\<rparr>, ?ob]"
  have 1: "lookup ?h 1 = Some ?ob"
    by (simp add: lookup_def)
  have 2: "kind ?ob = Plain"
    by simp
  have 3: "get_member ?h (Ref 0) ''a'' = Inr (Ref 1)"
    by code_simp
  have 4: "own ?ob ''name'' = Str ''n''"
    by (simp add: own_def)
  from index_on_plain_object [OF 1 2, of example_table "KStr ''name''" "[]" Undefined "Str ''m''"
      "Property ''x''" "Ref 0" no_json] 1 3 4
  show ?thesis
    by simp
qed

end
